theory Spec2Isabelle
  imports Complex_Main "HOL-Library.Sublist" "HOL-Library.Log_Nat"
begin

section \<open>JavaScript values used by the components\<close>

text \<open>
  A JavaScript string is modelled by its UTF-8 encoding, a \<^typ>\<open>string\<close> of bytes. Every
  pattern the components search for (\<open>,\<close>, \<open>numeric:\<close>, digits, signs) is ASCII, and an
  ASCII byte never occurs inside a multi-byte sequence, so splitting, prefix tests and
  comparison with the empty string agree with the engine's work on UTF-16 code units.
\<close>

subsection \<open>White space: \<open>String.prototype.trim\<close>\<close>

text \<open>
  The code points of the ECMAScript productions WhiteSpace and LineTerminator, each as its
  UTF-8 byte sequence: TAB, LF, VT, FF, CR, SP, U+00A0, U+1680, U+2000 to U+200A, U+2028,
  U+2029, U+202F, U+205F, U+3000 and U+FEFF.
\<close>

definition white_space :: "string list" where
  "white_space =
     [[CHR 0x09], [CHR 0x0A], [CHR 0x0B], [CHR 0x0C], [CHR 0x0D], [CHR 0x20],
      [CHR 0xC2, CHR 0xA0],
      [CHR 0xE1, CHR 0x9A, CHR 0x80],
      [CHR 0xE2, CHR 0x80, CHR 0x80], [CHR 0xE2, CHR 0x80, CHR 0x81],
      [CHR 0xE2, CHR 0x80, CHR 0x82], [CHR 0xE2, CHR 0x80, CHR 0x83],
      [CHR 0xE2, CHR 0x80, CHR 0x84], [CHR 0xE2, CHR 0x80, CHR 0x85],
      [CHR 0xE2, CHR 0x80, CHR 0x86], [CHR 0xE2, CHR 0x80, CHR 0x87],
      [CHR 0xE2, CHR 0x80, CHR 0x88], [CHR 0xE2, CHR 0x80, CHR 0x89],
      [CHR 0xE2, CHR 0x80, CHR 0x8A],
      [CHR 0xE2, CHR 0x80, CHR 0xA8], [CHR 0xE2, CHR 0x80, CHR 0xA9],
      [CHR 0xE2, CHR 0x80, CHR 0xAF],
      [CHR 0xE2, CHR 0x81, CHR 0x9F],
      [CHR 0xE3, CHR 0x80, CHR 0x80],
      [CHR 0xEF, CHR 0xBB, CHR 0xBF]]"

text \<open>Removes from the front of \<open>s\<close> every leading occurrence of one of the sequences \<open>ws\<close>.\<close>

function strip_leading :: "string list \<Rightarrow> string \<Rightarrow> string" where
  "strip_leading ws s =
     (case find (\<lambda>w. w \<noteq> [] \<and> prefix w s) ws of
        None \<Rightarrow> s
      | Some w \<Rightarrow> strip_leading ws (drop (length w) s))"
  by pat_completeness auto
termination
proof (relation "measure (\<lambda>(ws, s). length s)")
  show "wf (measure (\<lambda>(ws, s). length s))"
    by simp
next
  fix ws :: "string list" and s w :: string
  assume "find (\<lambda>w. w \<noteq> [] \<and> prefix w s) ws = Some w"
  then have "w \<noteq> []" and "prefix w s"
    by (auto simp: find_Some_iff)
  then have "s \<noteq> []"
    by auto
  with \<open>w \<noteq> []\<close> show "((ws, drop (length w) s), (ws, s)) \<in> measure (\<lambda>(ws, s). length s)"
    by simp
qed

definition trimStart :: "string \<Rightarrow> string" where
  "trimStart s = strip_leading white_space s"

definition trimEnd :: "string \<Rightarrow> string" where
  "trimEnd s = rev (strip_leading (map rev white_space) (rev s))"

definition trim :: "string \<Rightarrow> string" where
  "trim s = trimEnd (trimStart s)"

subsection \<open>\<open>String.prototype.split\<close> with a one-character separator\<close>

fun split :: "char \<Rightarrow> string \<Rightarrow> string list" where
  "split sep [] = [[]]"
| "split sep (c # cs) =
     (if c = sep then [] # split sep cs
      else (case split sep cs of
              [] \<Rightarrow> [[c]]
            | seg # segs \<Rightarrow> (c # seg) # segs))"

subsection \<open>\<open>String.prototype.replace\<close> with a string pattern\<close>

text \<open>Only the first occurrence of the pattern is replaced.\<close>

fun replace :: "string \<Rightarrow> string \<Rightarrow> string \<Rightarrow> string" where
  "replace pat rep [] = (if pat = [] then rep else [])"
| "replace pat rep (c # cs) =
     (if prefix pat (c # cs) then rep @ drop (length pat) (c # cs)
      else c # replace pat rep cs)"

subsection \<open>Numbers and \<open>parseFloat\<close>\<close>

text \<open>
  A Number is NaN, an infinity, or a finite binary64 value, kept as the rational it
  denotes (the two zeros are one value: \<open>isNaN\<close> and \<open>\<le>\<close> do not tell them apart).
\<close>

datatype number = NaN | NegInf | Fin rat | PosInf

fun isNaN :: "number \<Rightarrow> bool" where
  "isNaN NaN = True"
| "isNaN _ = False"

text \<open>The relational operator \<open>a <= b\<close> on Numbers: false as soon as one side is NaN.\<close>

fun num_le :: "number \<Rightarrow> number \<Rightarrow> bool" where
  "num_le NaN _ = False"
| "num_le _ NaN = False"
| "num_le NegInf _ = True"
| "num_le _ PosInf = True"
| "num_le (Fin a) (Fin b) = (a \<le> b)"
| "num_le (Fin a) NegInf = False"
| "num_le PosInf _ = False"

text \<open>The relational operator \<open>a > b\<close> on Numbers.\<close>

fun num_gt :: "number \<Rightarrow> number \<Rightarrow> bool" where
  "num_gt NaN _ = False"
| "num_gt _ NaN = False"
| "num_gt NegInf _ = False"
| "num_gt _ PosInf = False"
| "num_gt (Fin a) (Fin b) = (a > b)"
| "num_gt (Fin a) NegInf = True"
| "num_gt PosInf _ = True"

definition pow2 :: "int \<Rightarrow> rat" where
  "pow2 p = (if 0 \<le> p then 2 ^ nat p else 1 / 2 ^ nat (- p))"

text \<open>The greatest \<open>e\<close> with \<open>2 ^ e \<le> a\<close>, for \<open>a > 0\<close>.\<close>

definition ilog2 :: "rat \<Rightarrow> int" where
  "ilog2 a =
     (let (n, d) = quotient_of a;
          k = bitlen n - bitlen d
      in if pow2 k \<le> a then k else k - 1)"

definition round_half_even :: "rat \<Rightarrow> int" where
  "round_half_even x =
     (let f = \<lfloor>x\<rfloor>; r = x - of_int f
      in if r < 1 / 2 then f
         else if 1 / 2 < r then f + 1
         else if even f then f else f + 1)"

text \<open>
  The Number value of a rational: rounding to the nearest binary64 value, ties to even,
  with 53 significant bits, least exponent \<open>-1074\<close>, and an infinity from \<open>2 ^ 1024\<close> on.
\<close>

definition binary64 :: "rat \<Rightarrow> number" where
  "binary64 q =
     (if q = 0 then Fin 0
      else
        let a = \<bar>q\<bar>;
            p = max (ilog2 a - 52) (- 1074);
            v = of_int (round_half_even (a / pow2 p)) * pow2 p
        in if pow2 1024 \<le> v then (if 0 < q then PosInf else NegInf)
           else Fin (if 0 < q then v else - v))"

definition is_digit :: "char \<Rightarrow> bool" where
  "is_digit c = ((of_char CHR ''0'' :: nat) \<le> of_char c \<and> (of_char c :: nat) \<le> of_char CHR ''9'')"

definition digit_val :: "char \<Rightarrow> nat" where
  "digit_val c = of_char c - of_char CHR ''0''"

definition digits_val :: "string \<Rightarrow> nat" where
  "digits_val ds = foldl (\<lambda>n c. 10 * n + digit_val c) 0 ds"

text \<open>
  The exponent part of a StrDecimalLiteral at the front of \<open>s\<close>: \<open>e\<close> or \<open>E\<close>, an optional
  sign and at least one digit; \<open>0\<close> when there is none (the longest prefix that is a literal
  then ends before it).
\<close>

definition exponent_part :: "string \<Rightarrow> int" where
  "exponent_part s =
     (case s of
        [] \<Rightarrow> 0
      | c # r \<Rightarrow>
          if c = CHR ''e'' \<or> c = CHR ''E'' then
            (let (neg, r') =
                   (case r of
                      [] \<Rightarrow> (False, r)
                    | d # r'' \<Rightarrow>
                        if d = CHR ''-'' then (True, r'')
                        else if d = CHR ''+'' then (False, r'')
                        else (False, r));
                 ds = takeWhile is_digit r'
             in if ds = [] then 0
                else if neg then - int (digits_val ds) else int (digits_val ds))
          else 0)"

text \<open>
  The global function \<open>parseFloat\<close> on a string: leading white space is skipped, the longest
  prefix that is a StrDecimalLiteral is read (a sign, then \<open>Infinity\<close>, or digits with an
  optional fraction and exponent, or a fraction alone), and whatever follows is ignored;
  NaN when no prefix is a literal.
\<close>

definition parseFloat :: "string \<Rightarrow> number" where
  "parseFloat s =
     (let t = trimStart s;
          (neg, u) =
            (case t of
               [] \<Rightarrow> (False, t)
             | c # r \<Rightarrow>
                 if c = CHR ''-'' then (True, r)
                 else if c = CHR ''+'' then (False, r)
                 else (False, t))
      in if prefix ''Infinity'' u then (if neg then NegInf else PosInf)
         else
           let ip = takeWhile is_digit u;
               r1 = dropWhile is_digit u;
               fp = (case r1 of
                       [] \<Rightarrow> []
                     | c # r \<Rightarrow> if c = CHR ''.'' then takeWhile is_digit r else []);
               r2 = (case r1 of
                       [] \<Rightarrow> []
                     | c # r \<Rightarrow> if c = CHR ''.'' then dropWhile is_digit r else r1)
           in if ip = [] \<and> fp = [] then NaN
              else
                let m = of_nat (digits_val ip) + of_nat (digits_val fp) / 10 ^ length fp;
                    e = exponent_part r2;
                    q = m * (if 0 \<le> e then 10 ^ nat e else 1 / 10 ^ nat (- e))
                in binary64 (if neg then - q else q))"

text \<open>
  What the component stores in \<open>filterValue\<close> and \<open>filterValue2\<close>: a string (the initial
  \<open>''\<close>, or the text of an input or select element), a Number (the text of a number input,
  which the binding converts), or the array of strings that \<open>parseInValues\<close> assigns.
\<close>

datatype jsvalue = Str string | Num number | Arr "string list"

text \<open>
  ToBoolean: the empty string, the Number zero and NaN are falsy; every other string and
  Number, and every array, is truthy.
\<close>

fun truthy :: "jsvalue \<Rightarrow> bool" where
  "truthy (Str s) = (s \<noteq> [])"
| "truthy (Num n) = (n \<noteq> NaN \<and> n \<noteq> Fin 0)"
| "truthy (Arr xs) = True"

fun join :: "string \<Rightarrow> string list \<Rightarrow> string" where
  "join sep [] = []"
| "join sep [x] = x"
| "join sep (x # y # ys) = x @ sep @ join sep (y # ys)"

text \<open>
  \<open>parseFloat\<close> on a value of any of the three kinds: it reads the value's ToString. An
  array is joined with commas. The ToString of a Number is a literal that reads back as
  that Number (\<open>NaN\<close> for NaN, which no literal is a prefix of), so a Number is its own
  result.
\<close>

fun parseFloat_value :: "jsvalue \<Rightarrow> number" where
  "parseFloat_value (Str s) = parseFloat s"
| "parseFloat_value (Num n) = n"
| "parseFloat_value (Arr xs) = parseFloat (join '','' xs)"

text \<open>
  The binding \<open>v-model\<close> on a text-like input element of Vue 3: the element's text is
  stored, and for an element of type \<open>number\<close> it is first given to \<open>looseToNumber\<close>, which
  returns the Number that \<open>parseFloat\<close> reads, or the text itself when that is NaN.
\<close>

definition looseToNumber :: "string \<Rightarrow> jsvalue" where
  "looseToNumber val = (let n = parseFloat val in if isNaN n then Str val else Num n)"

definition vModelText :: "string \<Rightarrow> string \<Rightarrow> jsvalue" where
  "vModelText input_type domValue =
     (if input_type = ''number'' then looseToNumber domValue else Str domValue)"

section \<open>FilterBuilder.vue\<close>

record operator_option =
  op_value :: string
  op_label :: string

text \<open>
  The table \<open>OPERATORS\<close>, keyed by \<open>numeric\<close>, \<open>categorical\<close> and \<open>datetime\<close>. Three labels hold
  a character outside ASCII (U+2260, U+2265, U+2264), written as its UTF-8 bytes.
\<close>

definition OPERATORS :: "(string \<times> operator_option list) list" where
  "OPERATORS =
     [(''numeric'',
       [\<lparr>op_value = ''eq'', op_label = ''equals (=)''\<rparr>,
        \<lparr>op_value = ''ne'', op_label = ''not equals ('' @ [CHR 0xE2, CHR 0x89, CHR 0xA0] @ '')''\<rparr>,
        \<lparr>op_value = ''gt'', op_label = ''greater than (>)''\<rparr>,
        \<lparr>op_value = ''lt'', op_label = ''less than (<)''\<rparr>,
        \<lparr>op_value = ''gte'',
         op_label = ''greater than or equal ('' @ [CHR 0xE2, CHR 0x89, CHR 0xA5] @ '')''\<rparr>,
        \<lparr>op_value = ''lte'',
         op_label = ''less than or equal ('' @ [CHR 0xE2, CHR 0x89, CHR 0xA4] @ '')''\<rparr>,
        \<lparr>op_value = ''between'', op_label = ''between''\<rparr>]),
      (''categorical'',
       [\<lparr>op_value = ''eq'', op_label = ''equals''\<rparr>,
        \<lparr>op_value = ''ne'', op_label = ''not equals''\<rparr>,
        \<lparr>op_value = ''contains'', op_label = ''contains''\<rparr>,
        \<lparr>op_value = ''in'', op_label = ''is one of''\<rparr>]),
      (''datetime'',
       [\<lparr>op_value = ''eq'', op_label = ''on date''\<rparr>,
        \<lparr>op_value = ''gt'', op_label = ''after''\<rparr>,
        \<lparr>op_value = ''lt'', op_label = ''before''\<rparr>,
        \<lparr>op_value = ''gte'', op_label = ''on or after''\<rparr>,
        \<lparr>op_value = ''lte'', op_label = ''on or before''\<rparr>,
        \<lparr>op_value = ''between'', op_label = ''between''\<rparr>])]"

text \<open>The form state of the component: its refs, with the values they start from.\<close>

record filter_builder =
  selectedColumn :: string
  selectedOperator :: string
  filterValue :: jsvalue
  filterValue2 :: jsvalue
  filterValueText :: string
  filterOptions :: "string list"
  loadingOptions :: bool
  validationError :: string

definition initial_builder :: filter_builder where
  "initial_builder =
     \<lparr>selectedColumn = [], selectedOperator = [], filterValue = Str [],
      filterValue2 = Str [], filterValueText = [], filterOptions = [], loadingOptions = False,
      validationError = []\<rparr>"

text \<open>
  \<open>columnDataType\<close>: \<open>None\<close> is the source's \<open>null\<close>. The first argument is the store's
  \<open>dataTypes\<close> object; a column it does not hold reads as \<open>undefined\<close>, here \<open>None\<close>.
\<close>

definition columnDataType :: "(string \<rightharpoonup> string) \<Rightarrow> filter_builder \<Rightarrow> string option" where
  "columnDataType dataTypes s =
     (if selectedColumn s = [] then None
      else
        let dataType = dataTypes (selectedColumn s)
        in if dataType = Some ''numeric'' then Some ''numeric''
           else if dataType = Some ''datetime'' \<or> dataType = Some ''datetime_candidate''
             then Some ''datetime''
           else Some ''categorical'')"

definition availableOperators :: "(string \<rightharpoonup> string) \<Rightarrow> filter_builder \<Rightarrow> operator_option list" where
  "availableOperators dataTypes s =
     (case columnDataType dataTypes s of
        None \<Rightarrow> []
      | Some t \<Rightarrow> (case map_of OPERATORS t of Some ops \<Rightarrow> ops | None \<Rightarrow> []))"

definition valueInputType :: "(string \<rightharpoonup> string) \<Rightarrow> filter_builder \<Rightarrow> string" where
  "valueInputType dataTypes s =
     (if columnDataType dataTypes s = Some ''numeric'' then ''number''
      else if columnDataType dataTypes s = Some ''datetime'' then ''date''
      else ''text'')"

definition shouldShowDropdown :: "(string \<rightharpoonup> string) \<Rightarrow> filter_builder \<Rightarrow> bool" where
  "shouldShowDropdown dataTypes s =
     (columnDataType dataTypes s = Some ''categorical'' \<and>
      (selectedOperator s = ''eq'' \<or> selectedOperator s = ''ne''))"

definition canApply :: "filter_builder \<Rightarrow> bool" where
  "canApply s =
     (if selectedColumn s = [] \<or> selectedOperator s = [] then False
      else if selectedOperator s = ''between''
        then filterValue s \<noteq> Str [] \<and> filterValue2 s \<noteq> Str [] \<and> validationError s = []
      else if selectedOperator s = ''in''
        then filterValue s \<noteq> Str [] \<or> filterValueText s \<noteq> []
      else filterValue s \<noteq> Str [])"

text \<open>
  \<open>loadFilterOptions\<close>, from its call to its return: the argument \<open>fetched\<close> is the outcome
  of the store's \<open>getFilterOptions\<close>, \<open>None\<close> when the request fails or yields nothing.
  \<open>loadingOptions\<close> is true only while the request is pending.
\<close>

definition loadFilterOptions :: "string list option \<Rightarrow> filter_builder \<Rightarrow> filter_builder" where
  "loadFilterOptions fetched s =
     (if selectedColumn s = [] then s
      else s\<lparr>filterOptions := (case fetched of Some options \<Rightarrow> options | None \<Rightarrow> []),
             loadingOptions := False\<rparr>)"

text \<open>The callback of \<open>watch([filterValue, filterValue2], ...)\<close>.\<close>

definition watch_filterValues :: "filter_builder \<Rightarrow> filter_builder" where
  "watch_filterValues s =
     (if selectedOperator s = ''between'' \<and> truthy (filterValue s) \<and> truthy (filterValue2 s)
      then
        let val1 = parseFloat_value (filterValue s);
            val2 = parseFloat_value (filterValue2 s)
        in if \<not> isNaN val1 \<and> \<not> isNaN val2 \<and> num_le val2 val1
           then s\<lparr>validationError := ''End value must be greater than start value''\<rparr>
           else s\<lparr>validationError := []\<rparr>
      else s)"

text \<open>
  A handler's writes to \<open>filterValue\<close> and \<open>filterValue2\<close> are followed by the watcher when
  one of the two has changed: \<open>flush old new\<close> is the state once the handler that
  took \<open>old\<close> to \<open>new\<close> has returned.
\<close>

definition flush :: "filter_builder \<Rightarrow> filter_builder \<Rightarrow> filter_builder" where
  "flush old new =
     (if filterValue new = filterValue old \<and> filterValue2 new = filterValue2 old
      then new else watch_filterValues new)"

text \<open>The column select: \<open>v-model\<close> stores the choice, then \<open>onColumnChange\<close> runs.\<close>

definition onColumnChange ::
  "(string \<rightharpoonup> string) \<Rightarrow> string list option \<Rightarrow> filter_builder \<Rightarrow> filter_builder" where
  "onColumnChange dataTypes fetched s =
     (let s1 = s\<lparr>selectedOperator := [], filterValue := Str [], filterValue2 := Str [],
                  filterValueText := [], filterOptions := [], validationError := []\<rparr>
      in flush s
           (if columnDataType dataTypes s1 = Some ''categorical''
            then loadFilterOptions fetched s1 else s1))"

definition select_column ::
  "(string \<rightharpoonup> string) \<Rightarrow> string list option \<Rightarrow> string \<Rightarrow> filter_builder \<Rightarrow> filter_builder" where
  "select_column dataTypes fetched c s = onColumnChange dataTypes fetched (s\<lparr>selectedColumn := c\<rparr>)"

text \<open>The operator select: \<open>v-model\<close> stores the choice, then \<open>onOperatorChange\<close> runs.\<close>

definition onOperatorChange ::
  "(string \<rightharpoonup> string) \<Rightarrow> string list option \<Rightarrow> filter_builder \<Rightarrow> filter_builder" where
  "onOperatorChange dataTypes fetched s =
     (let s1 = s\<lparr>filterValue := Str [], filterValue2 := Str [], filterValueText := [],
                  validationError := []\<rparr>
      in flush s
           (if shouldShowDropdown dataTypes s1 \<and> filterOptions s1 = []
            then loadFilterOptions fetched s1 else s1))"

definition select_operator ::
  "(string \<rightharpoonup> string) \<Rightarrow> string list option \<Rightarrow> string \<Rightarrow> filter_builder \<Rightarrow> filter_builder" where
  "select_operator dataTypes fetched opr s =
     onOperatorChange dataTypes fetched (s\<lparr>selectedOperator := opr\<rparr>)"

text \<open>
  The inputs bound with \<open>v-model\<close> to \<open>filterValue\<close> and \<open>filterValue2\<close>: each has the type
  \<open>valueInputType\<close>, which is \<open>number\<close> for a numeric column. (For a categorical column and
  \<open>eq\<close> or \<open>ne\<close> the element is a select or a text input, and \<open>valueInputType\<close> is \<open>text\<close>.)
  The argument \<open>v\<close> is the element's text.
\<close>

definition input_filterValue ::
  "(string \<rightharpoonup> string) \<Rightarrow> string \<Rightarrow> filter_builder \<Rightarrow> filter_builder" where
  "input_filterValue dataTypes v s =
     flush s (s\<lparr>filterValue := vModelText (valueInputType dataTypes s) v\<rparr>)"

definition input_filterValue2 ::
  "(string \<rightharpoonup> string) \<Rightarrow> string \<Rightarrow> filter_builder \<Rightarrow> filter_builder" where
  "input_filterValue2 dataTypes v s =
     flush s (s\<lparr>filterValue2 := vModelText (valueInputType dataTypes s) v\<rparr>)"

text \<open>The text input of the operator \<open>in\<close>, bound with \<open>v-model\<close> to \<open>filterValueText\<close>.\<close>

definition input_filterValueText :: "string \<Rightarrow> filter_builder \<Rightarrow> filter_builder" where
  "input_filterValueText v s = s\<lparr>filterValueText := v\<rparr>"

text \<open>\<open>parseInValues\<close>, the blur handler of the multi-value input.\<close>

definition parseInValues :: "filter_builder \<Rightarrow> filter_builder" where
  "parseInValues s =
     (if filterValueText s \<noteq> [] then
        let values = filter (\<lambda>v. v \<noteq> []) (map trim (split CHR '','' (filterValueText s)))
        in s\<lparr>filterValue := Arr values\<rparr>
      else s)"

text \<open>
  The blur of the multi-value input: an array that \<open>parseInValues\<close> assigns is a new object,
  so the watcher follows whenever the text was not empty.
\<close>

definition blur_filterValueText :: "filter_builder \<Rightarrow> filter_builder" where
  "blur_filterValueText s =
     (if filterValueText s \<noteq> [] then watch_filterValues (parseInValues s) else s)"

text \<open>The filter that \<open>applyFilter\<close> emits; \<open>filter_value2\<close> is \<open>None\<close> when the key is absent.\<close>

record filter_predicate =
  filter_column :: string
  filter_operator :: string
  filter_value :: jsvalue
  filter_value2 :: "jsvalue option"

text \<open>\<open>applyFilter\<close>: the emitted filter, if any, and the form state afterwards.\<close>

definition applyFilter :: "filter_builder \<Rightarrow> filter_predicate option \<times> filter_builder" where
  "applyFilter s =
     (if \<not> canApply s then (None, s)
      else
        (Some \<lparr>filter_column = selectedColumn s, filter_operator = selectedOperator s,
               filter_value = filterValue s,
               filter_value2 =
                 (if selectedOperator s = ''between'' then Some (filterValue2 s) else None)\<rparr>,
         flush s
           (s\<lparr>selectedColumn := [], selectedOperator := [], filterValue := Str [],
              filterValue2 := Str [], filterValueText := [], validationError := []\<rparr>)))"

section \<open>ChartConfig.vue\<close>

text \<open>The form state of the component: its refs.\<close>

record chart_form =
  chartType :: string
  xColumn :: string
  yColumn :: string
  colorColumn :: string
  chartTitle :: string
  yColumns :: "string list"
  secondaryYColumns :: "string list"
  barMode :: string
  sortOrder :: string
  orientation :: string
  showTrendline :: bool
  trendlineDegree :: int
  sizeColumn :: string
  showDistributionFit :: bool
  showStatistics :: bool
  showPoints :: bool
  horizontalOrientation :: bool
  heatmapColorscale :: string
  showHeatmapAnnotations :: bool

definition initial_form :: chart_form where
  "initial_form =
     \<lparr>chartType = ''line'', xColumn = [], yColumn = [], colorColumn = [], chartTitle = [],
      yColumns = [], secondaryYColumns = [],
      barMode = ''group'', sortOrder = [], orientation = ''v'',
      showTrendline = False, trendlineDegree = 1, sizeColumn = [],
      showDistributionFit = False, showStatistics = False,
      showPoints = False, horizontalOrientation = False,
      heatmapColorscale = ''RdBu'', showHeatmapAnnotations = True\<rparr>"

definition canGenerate :: "chart_form \<Rightarrow> bool" where
  "canGenerate s =
     (if chartType s = ''heatmap'' then True
      else if chartType s = ''histogram'' then xColumn s \<noteq> []
      else if chartType s = ''line''
        then xColumn s \<noteq> [] \<and> (yColumn s \<noteq> [] \<or> length (yColumns s) > 0)
      else xColumn s \<noteq> [] \<and> yColumn s \<noteq> [])"

text \<open>
  \<open>canGenerate\<close> of the earlier copy of the component, which has no multi-select: it reads
  the chart type and the two axis columns only.
\<close>

definition canGenerate_single :: "string \<Rightarrow> string \<Rightarrow> string \<Rightarrow> bool" where
  "canGenerate_single chart_type x y =
     (if chart_type = ''heatmap'' then True
      else if chart_type = ''histogram'' then x \<noteq> []
      else x \<noteq> [] \<and> y \<noteq> [])"

text \<open>The callback of \<open>watch(yColumns, ...)\<close>; \<open>newVal\<close> is the value just assigned.\<close>

definition watch_yColumns :: "string list \<Rightarrow> chart_form \<Rightarrow> chart_form" where
  "watch_yColumns newVal s =
     s\<lparr>secondaryYColumns := filter (\<lambda>c. c \<in> set newVal) (secondaryYColumns s)\<rparr>"

text \<open>The callback of \<open>watch(chartType, ...)\<close>.\<close>

definition watch_chartType :: "chart_form \<Rightarrow> chart_form" where
  "watch_chartType s =
     s\<lparr>yColumns := [], secondaryYColumns := [],
       barMode := ''group'', sortOrder := [], orientation := ''v'',
       showTrendline := False, trendlineDegree := 1, sizeColumn := [],
       showDistributionFit := False, showStatistics := False,
       showPoints := False, horizontalOrientation := False,
       heatmapColorscale := ''RdBu'', showHeatmapAnnotations := True\<rparr>"

text \<open>A suggestion of the analysis service; an absent column is \<open>None\<close>.\<close>

record suggestion =
  sg_chart_type :: string
  sg_x_column :: "string option"
  sg_y_column :: "string option"
  sg_reason :: string
  sg_priority :: int

text \<open>\<open>a || ''\<close> for a string that may be absent.\<close>

definition or_empty :: "string option \<Rightarrow> string" where
  "or_empty a = (case a of None \<Rightarrow> [] | Some x \<Rightarrow> x)"

text \<open>
  The watchers run once the handler that took the form from \<open>old\<close> to \<open>new\<close> has returned:
  the one of \<open>yColumns\<close> when the handler assigned to \<open>yColumns\<close> (an assignment stores a new
  array), the one of \<open>chartType\<close> when the chart type has changed, and after it the one of
  \<open>yColumns\<close> again, for the empty array that it assigns.
\<close>

definition flush_watchers :: "chart_form \<Rightarrow> bool \<Rightarrow> chart_form \<Rightarrow> chart_form" where
  "flush_watchers old yColumns_assigned new =
     (let s1 = (if yColumns_assigned then watch_yColumns (yColumns new) new else new)
      in if chartType s1 \<noteq> chartType old then watch_yColumns [] (watch_chartType s1) else s1)"

text \<open>The chart type select, bound with \<open>v-model\<close> to \<open>chartType\<close>.\<close>

definition select_chartType :: "string \<Rightarrow> chart_form \<Rightarrow> chart_form" where
  "select_chartType t s = flush_watchers s False (s\<lparr>chartType := t\<rparr>)"

text \<open>
  The color select, bound with \<open>v-model\<close> to \<open>colorColumn\<close>. Its options are \<open>''\<close>, the names
  of the categorical columns and, for a scatter plot only, \<open>numeric:\<close> followed by the name of
  a numeric column; the columns are not part of this model, so any value can be selected.
\<close>

definition select_colorColumn :: "string \<Rightarrow> chart_form \<Rightarrow> chart_form" where
  "select_colorColumn c s = s\<lparr>colorColumn := c\<rparr>"

text \<open>
  A checkbox bound with \<open>v-model\<close> to an array: checking appends the box's value unless the
  array holds it, unchecking removes its first occurrence; a new array is assigned when
  something changes, and nothing is assigned otherwise (\<open>None\<close>).
\<close>

definition checkbox_model :: "string \<Rightarrow> bool \<Rightarrow> string list \<Rightarrow> string list option" where
  "checkbox_model v checked model =
     (if checked \<and> v \<notin> set model then Some (model @ [v])
      else if \<not> checked \<and> v \<in> set model then Some (remove1 v model)
      else None)"

text \<open>
  \<open>showMultiYSelector\<close>: the template renders the multi-select of Y columns, with its Y2
  checkboxes, only for a line chart.
\<close>

definition showMultiYSelector :: "chart_form \<Rightarrow> bool" where
  "showMultiYSelector s = (chartType s = ''line'')"

text \<open>The checkbox of column \<open>c\<close> in the multi-select of Y columns.\<close>

definition check_yColumn :: "string \<Rightarrow> bool \<Rightarrow> chart_form \<Rightarrow> chart_form" where
  "check_yColumn c checked s =
     (if showMultiYSelector s then
        (case checkbox_model c checked (yColumns s) of
           None \<Rightarrow> s
         | Some new \<Rightarrow> flush_watchers s True (s\<lparr>yColumns := new\<rparr>))
      else s)"

text \<open>
  The Y2 checkbox of column \<open>c\<close>. Within the multi-select, the template renders it only for
  a column that is among \<open>yColumns\<close>, and only once \<open>yColumns\<close> holds two columns or more.
\<close>

definition check_secondaryYColumn :: "string \<Rightarrow> bool \<Rightarrow> chart_form \<Rightarrow> chart_form" where
  "check_secondaryYColumn c checked s =
     (if showMultiYSelector s \<and> c \<in> set (yColumns s) \<and> length (yColumns s) \<ge> 2 then
        (case checkbox_model c checked (secondaryYColumns s) of
           None \<Rightarrow> s
         | Some new \<Rightarrow> s\<lparr>secondaryYColumns := new\<rparr>)
      else s)"

definition resetForm :: "chart_form \<Rightarrow> chart_form" where
  "resetForm s =
     flush_watchers s True
       (s\<lparr>chartType := ''line'', xColumn := [], yColumn := [], colorColumn := [],
          chartTitle := [], yColumns := [], secondaryYColumns := [],
          barMode := ''group'', sortOrder := [], orientation := ''v'',
          showTrendline := False, trendlineDegree := 1, sizeColumn := [],
          showDistributionFit := False, showStatistics := False,
          showPoints := False, horizontalOrientation := False,
          heatmapColorscale := ''RdBu'', showHeatmapAnnotations := True\<rparr>)"

definition applySuggestion :: "suggestion \<Rightarrow> chart_form \<Rightarrow> chart_form" where
  "applySuggestion sg s =
     flush_watchers s False
       (s\<lparr>chartType := sg_chart_type sg, xColumn := or_empty (sg_x_column sg),
          yColumn := or_empty (sg_y_column sg), chartTitle := sg_reason sg\<rparr>)"

text \<open>
  What the user can do to the two column lists and to the chart type, as events, and the
  form after a sequence of them.
\<close>

datatype form_event =
    SelectChartType string
  | CheckY string bool
  | CheckY2 string bool
  | SelectColor string
  | ApplySuggestion suggestion
  | ResetForm

fun form_step :: "chart_form \<Rightarrow> form_event \<Rightarrow> chart_form" where
  "form_step s (SelectChartType t) = select_chartType t s"
| "form_step s (CheckY c checked) = check_yColumn c checked s"
| "form_step s (CheckY2 c checked) = check_secondaryYColumn c checked s"
| "form_step s (SelectColor c) = select_colorColumn c s"
| "form_step s (ApplySuggestion sg) = applySuggestion sg s"
| "form_step s ResetForm = resetForm s"

definition form_run :: "form_event list \<Rightarrow> chart_form \<Rightarrow> chart_form" where
  "form_run events s = foldl form_step s events"

text \<open>The values of the option bag of a chart configuration.\<close>

datatype option_value = OString string | OStrings "string list" | OBool bool | ONumber int

text \<open>
  The configuration that \<open>generateChart\<close> builds: \<open>None\<close> is \<open>null\<close> for the four base fields
  and an absent key for \<open>size_column\<close> and within \<open>options\<close>.
\<close>

record chart_config =
  chart_type :: string
  x_column :: "string option"
  y_column :: "string option"
  color_column :: "string option"
  title :: "string option"
  size_column :: "string option"
  options :: "string \<rightharpoonup> option_value"

text \<open>\<open>a || null\<close> for a string.\<close>

definition or_null :: "string \<Rightarrow> string option" where
  "or_null a = (if a = [] then None else Some a)"

text \<open>
  The body of \<open>generateChart\<close> up to the call of the store, one definition for each of its
  blocks, in the order of the source.
\<close>

definition config_base :: "chart_form \<Rightarrow> chart_config" where
  "config_base s =
     \<lparr>chart_type = chartType s, x_column = or_null (xColumn s), y_column = or_null (yColumn s),
      color_column = None, title = or_null (chartTitle s), size_column = None,
      options = Map.empty\<rparr>"

definition config_color :: "chart_form \<Rightarrow> chart_config \<Rightarrow> chart_config" where
  "config_color s config =
     (if colorColumn s \<noteq> [] then
        (if prefix ''numeric:'' (colorColumn s)
         then config\<lparr>options := (options config)
                  (''color_numeric'' \<mapsto> OString (replace ''numeric:'' [] (colorColumn s)))\<rparr>
         else config\<lparr>color_column := Some (colorColumn s)\<rparr>)
      else config)"

definition config_line :: "chart_form \<Rightarrow> chart_config \<Rightarrow> chart_config" where
  "config_line s config =
     (if chartType s = ''line'' \<and> length (yColumns s) > 0 then
        let config1 = config\<lparr>options := (options config)(''y_columns'' \<mapsto> OStrings (yColumns s)),
                              y_column := Some (hd (yColumns s))\<rparr>
        in if length (secondaryYColumns s) > 0
           then config1\<lparr>options := (options config1)
                  (''secondary_y_columns'' \<mapsto> OStrings (secondaryYColumns s))\<rparr>
           else config1
      else config)"

definition config_bar :: "chart_form \<Rightarrow> chart_config \<Rightarrow> chart_config" where
  "config_bar s config =
     (if chartType s = ''bar'' then
        let config1 = (if barMode s \<noteq> ''group''
                       then config\<lparr>options := (options config)(''bar_mode'' \<mapsto> OString (barMode s))\<rparr>
                       else config);
            config2 = (if sortOrder s \<noteq> []
                       then config1\<lparr>options := (options config1)
                              (''sort_order'' \<mapsto> OString (sortOrder s))\<rparr>
                       else config1)
        in if orientation s \<noteq> ''v''
           then config2\<lparr>options := (options config2)(''orientation'' \<mapsto> OString (orientation s))\<rparr>
           else config2
      else config)"

definition config_scatter :: "chart_form \<Rightarrow> chart_config \<Rightarrow> chart_config" where
  "config_scatter s config =
     (if chartType s = ''scatter'' then
        let config1 = (if sizeColumn s \<noteq> [] then config\<lparr>size_column := Some (sizeColumn s)\<rparr>
                       else config)
        in if showTrendline s
           then config1\<lparr>options := (options config1)
                  (''show_trendline'' \<mapsto> OBool True,
                   ''trendline_degree'' \<mapsto> ONumber (trendlineDegree s))\<rparr>
           else config1
      else config)"

definition config_time_series :: "chart_form \<Rightarrow> chart_config \<Rightarrow> chart_config" where
  "config_time_series s config =
     (if chartType s = ''time_series'' \<and> yColumn s \<noteq> []
      then config\<lparr>options := (options config)(''value_columns'' \<mapsto> OStrings [yColumn s])\<rparr>
      else config)"

definition config_histogram :: "chart_form \<Rightarrow> chart_config \<Rightarrow> chart_config" where
  "config_histogram s config =
     (if chartType s = ''histogram'' then
        let config1 = (if showDistributionFit s
                       then config\<lparr>options := (options config)
                              (''show_distribution_fit'' \<mapsto> OBool True)\<rparr>
                       else config)
        in if showStatistics s
           then config1\<lparr>options := (options config1)(''show_statistics'' \<mapsto> OBool True)\<rparr>
           else config1
      else config)"

definition config_box_violin :: "chart_form \<Rightarrow> chart_config \<Rightarrow> chart_config" where
  "config_box_violin s config =
     (if chartType s \<in> set [''box'', ''violin''] then
        let config1 = (if showPoints s
                       then config\<lparr>options := (options config)(''show_points'' \<mapsto> OBool True)\<rparr>
                       else config)
        in if horizontalOrientation s
           then config1\<lparr>options := (options config1)(''horizontal'' \<mapsto> OBool True)\<rparr>
           else config1
      else config)"

definition config_heatmap :: "chart_form \<Rightarrow> chart_config \<Rightarrow> chart_config" where
  "config_heatmap s config =
     (if chartType s = ''heatmap'' then
        let config1 = (if heatmapColorscale s \<noteq> ''RdBu''
                       then config\<lparr>options := (options config)
                              (''colorscale'' \<mapsto> OString (heatmapColorscale s))\<rparr>
                       else config)
        in if \<not> showHeatmapAnnotations s
           then config1\<lparr>options := (options config1)(''show_annotations'' \<mapsto> OBool False)\<rparr>
           else config1
      else config)"

definition build_config :: "chart_form \<Rightarrow> chart_config" where
  "build_config s =
     config_heatmap s (config_box_violin s (config_histogram s (config_time_series s
       (config_scatter s (config_bar s (config_line s (config_color s (config_base s))))))))"

section \<open>The store (dataStore.js)\<close>

record source =
  source_id :: string
  source_type :: string
  source_name :: string

record column =
  column_name :: string
  dtype :: string

text \<open>A row of data: the cells as text, by column name.\<close>

type_synonym row = "(string \<times> string) list"

text \<open>An entry of the \<open>charts\<close> array; the figure is kept as text.\<close>

record chart =
  chart_id :: string
  chart_chart_type :: string
  figure :: string
  config :: chart_config

record data_store =
  activeSource :: "source option"
  currentData :: "row list"
  totalRows :: int
  columns :: "column list"
  dataTypes :: "string \<rightharpoonup> string"
  activeFilters :: "filter_predicate list"
  charts :: "chart list"
  loading :: bool
  error :: "string option"
  chartSuggestions :: "suggestion list"

text \<open>
  A failed request as the \<open>catch\<close> blocks read it: \<open>error.response?.data?.detail\<close>, \<open>None\<close>
  when there is none, and \<open>error.message\<close>.
\<close>

record api_error =
  detail :: "string option"
  message :: string

text \<open>\<open>error.response?.data?.detail || error.message\<close>.\<close>

definition error_text :: "api_error \<Rightarrow> string" where
  "error_text e =
     (case detail e of
        None \<Rightarrow> message e
      | Some d \<Rightarrow> if d \<noteq> [] then d else message e)"

text \<open>What an action throws: \<open>new Error(...)\<close> of its own, or the request's error again.\<close>

datatype thrown = Error string | Rejected api_error

record query_response =
  response_data :: "row list"
  response_total_rows :: int

record chart_response =
  response_chart_id :: string
  response_chart_type :: string
  response_figure :: string

text \<open>
  The two collaborators, \<open>api.queryData\<close> and \<open>api.generateChart\<close>, as functions of what the
  store sends them; \<open>Inl\<close> is a rejected request.
\<close>

type_synonym query_api =
  "string \<Rightarrow> filter_predicate list \<Rightarrow> nat \<Rightarrow> nat \<Rightarrow> string list option
     \<Rightarrow> api_error + query_response"

record chart_request =
  request_source_id :: string
  request_config :: chart_config
  request_filters :: "filter_predicate list"

type_synonym chart_api = "chart_request \<Rightarrow> api_error + chart_response"

text \<open>
  An action, from its call to the settling of its promise: what it returns (\<open>Inr\<close>) or
  throws (\<open>Inl\<close>), and the store afterwards.
\<close>

definition queryData ::
  "query_api \<Rightarrow> nat \<Rightarrow> nat \<Rightarrow> string list option \<Rightarrow> data_store
     \<Rightarrow> (thrown + query_response) \<times> data_store" where
  "queryData api limit offset cols s =
     (case activeSource s of
        None \<Rightarrow> (Inl (Error ''No active data source''), s)
      | Some src \<Rightarrow>
          let s1 = s\<lparr>loading := True, error := None\<rparr>
          in (case api (source_id src) (activeFilters s1) limit offset cols of
                Inr response \<Rightarrow>
                  (Inr response,
                   s1\<lparr>currentData := response_data response,
                      totalRows := response_total_rows response, loading := False\<rparr>)
              | Inl e \<Rightarrow>
                  (Inl (Rejected e), s1\<lparr>error := Some (error_text e), loading := False\<rparr>)))"

text \<open>
  The three mutations of the filter set. Each calls \<open>queryData()\<close> with its default arguments
  and drops the promise.
\<close>

definition addFilter :: "query_api \<Rightarrow> filter_predicate \<Rightarrow> data_store \<Rightarrow> data_store" where
  "addFilter api f s = snd (queryData api 100 0 None (s\<lparr>activeFilters := activeFilters s @ [f]\<rparr>))"

text \<open>\<open>splice(index, 1)\<close> at an index from the list's rendering, a natural number.\<close>

definition removeFilter :: "query_api \<Rightarrow> nat \<Rightarrow> data_store \<Rightarrow> data_store" where
  "removeFilter api index s =
     snd (queryData api 100 0 None
       (s\<lparr>activeFilters := take index (activeFilters s) @ drop (Suc index) (activeFilters s)\<rparr>))"

definition clearFilters :: "query_api \<Rightarrow> data_store \<Rightarrow> data_store" where
  "clearFilters api s = snd (queryData api 100 0 None (s\<lparr>activeFilters := []\<rparr>))"

definition generateChart ::
  "chart_api \<Rightarrow> chart_config \<Rightarrow> data_store \<Rightarrow> (thrown + chart_response) \<times> data_store" where
  "generateChart api chartConfig s =
     (case activeSource s of
        None \<Rightarrow> (Inl (Error ''No active data source''), s)
      | Some src \<Rightarrow>
          let s1 = s\<lparr>loading := True, error := None\<rparr>;
              request = \<lparr>request_source_id = source_id src, request_config = chartConfig,
                         request_filters = activeFilters s1\<rparr>
          in (case api request of
                Inr response \<Rightarrow>
                  (Inr response,
                   s1\<lparr>charts := charts s1 @
                        [\<lparr>chart_id = response_chart_id response,
                          chart_chart_type = response_chart_type response,
                          figure = response_figure response, config = chartConfig\<rparr>],
                      loading := False\<rparr>)
              | Inl e \<Rightarrow>
                  (Inl (Rejected e), s1\<lparr>error := Some (error_text e), loading := False\<rparr>)))"

text \<open>
  \<open>generateChart\<close> of ChartConfig.vue: it builds the configuration and awaits the store's
  action; the form itself is not written to.
\<close>

definition ChartConfig_generateChart ::
  "chart_api \<Rightarrow> chart_form \<Rightarrow> data_store \<Rightarrow> chart_form \<times> (thrown + chart_response) \<times> data_store" where
  "ChartConfig_generateChart api form s = (form, generateChart api (build_config form) s)"

section \<open>Scenarios\<close>

text \<open>
  A dataset with a numeric column \<open>age\<close> and a categorical column \<open>city\<close>, and the filter
  form after \<open>age\<close> and then \<open>between\<close> have been selected.
\<close>

definition age_city :: "string \<rightharpoonup> string" where
  "age_city = [''age'' \<mapsto> ''numeric'', ''city'' \<mapsto> ''categorical'']"

definition age_between :: filter_builder where
  "age_between =
     select_operator age_city None ''between'' (select_column age_city None ''age'' initial_builder)"

text \<open>A dataset with a datetime column \<open>day\<close>, and the filter form after \<open>day\<close> and \<open>between\<close>.\<close>

definition day_type :: "string \<rightharpoonup> string" where
  "day_type = [''day'' \<mapsto> ''datetime'']"

definition day_between :: filter_builder where
  "day_between =
     select_operator day_type None ''between'' (select_column day_type None ''day'' initial_builder)"

text \<open>
  The filter form after \<open>city\<close>, for which the store returns two distinct values, and then
  \<open>in\<close> have been selected.
\<close>

definition city_in :: filter_builder where
  "city_in =
     select_operator age_city None ''in''
       (select_column age_city (Some [''Oslo'', ''Rome'']) ''city'' initial_builder)"

text \<open>
  A bar chart form in which every chart-specific option is away from its default, and a
  scatter form.
\<close>

definition bar_form :: chart_form where
  "bar_form = initial_form\<lparr>chartType := ''bar'', xColumn := ''city'', yColumn := ''age'',
     yColumns := [''age''], secondaryYColumns := [''age''],
     barMode := ''stack'', sortOrder := ''desc'', orientation := ''h'',
     showTrendline := True, trendlineDegree := 3, sizeColumn := ''age'',
     showDistributionFit := True, showStatistics := True, showPoints := True,
     horizontalOrientation := True, heatmapColorscale := ''Viridis'',
     showHeatmapAnnotations := False\<rparr>"

definition scatter_form :: chart_form where
  "scatter_form = initial_form\<lparr>chartType := ''scatter'', xColumn := ''age'', yColumn := ''income''\<rparr>"

text \<open>
  A line chart form after the Y columns \<open>a\<close>, \<open>b\<close> and \<open>c\<close> have been checked, and then Y2
  for \<open>b\<close>.
\<close>

definition line_abc :: chart_form where
  "line_abc = form_run [CheckY ''a'' True, CheckY ''b'' True, CheckY ''c'' True, CheckY2 ''b'' True]
     (initial_form\<lparr>xColumn := ''t''\<rparr>)"

text \<open>
  A store with a loaded file and one active filter, and two collaborators that reject every
  request.
\<close>

definition csv_store :: data_store where
  "csv_store =
     \<lparr>activeSource = Some \<lparr>source_id = ''s1'', source_type = ''csv'', source_name = ''people.csv''\<rparr>,
      currentData = [[(''age'', ''31''), (''city'', ''Oslo'')]], totalRows = 1,
      columns = [\<lparr>column_name = ''age'', dtype = ''int64''\<rparr>,
                 \<lparr>column_name = ''city'', dtype = ''object''\<rparr>],
      dataTypes = age_city,
      activeFilters = [\<lparr>filter_column = ''age'', filter_operator = ''gt'', filter_value = Str ''30'',
                         filter_value2 = None\<rparr>],
      charts = [], loading = False, error = None, chartSuggestions = []\<rparr>"

definition failing_query :: query_api where
  "failing_query source filters limit offset cols =
     Inl \<lparr>detail = Some ''Query failed'', message = ''Request failed with status code 500''\<rparr>"

definition failing_chart :: chart_api where
  "failing_chart request = Inl \<lparr>detail = None, message = ''Network Error''\<rparr>"

section \<open>Evaluation\<close>

lemmas parseFloat_eval =
  parseFloat_def trimStart_def white_space_def is_digit_def digits_val_def digit_val_def
  exponent_part_def binary64_def ilog2_def compute_bitlen pow2_def round_half_even_def Let_def

lemma parseFloat_10: "parseFloat ''10'' = Fin 10"
  by (simp add: parseFloat_eval)

lemma parseFloat_5: "parseFloat ''5'' = Fin 5"
  by (simp add: parseFloat_eval)

lemma parseFloat_50: "parseFloat ''50'' = Fin 50"
  by (simp add: parseFloat_eval)

lemma parseFloat_0: "parseFloat ''0'' = Fin 0"
  by (simp add: parseFloat_eval)

lemmas number_input_eval =
  input_filterValue_def input_filterValue2_def vModelText_def looseToNumber_def
  valueInputType_def columnDataType_def age_city_def flush_def watch_filterValues_def
  initial_builder_def parseFloat_0 parseFloat_5 parseFloat_10 parseFloat_50 Let_def

lemma num_gt_iff_not_le: "\<not> isNaN a \<Longrightarrow> \<not> isNaN b \<Longrightarrow> num_gt a b \<longleftrightarrow> \<not> num_le a b"
  by (cases a; cases b) auto

lemma age_between_eq:
  "age_between = initial_builder\<lparr>selectedColumn := ''age'', selectedOperator := ''between''\<rparr>"
  by (simp add: age_between_def age_city_def select_operator_def select_column_def
      onOperatorChange_def onColumnChange_def flush_def initial_builder_def columnDataType_def
      shouldShowDropdown_def)

lemma parseFloat_date_1: "parseFloat ''2024-01-05'' = Fin 2024"
  by (simp add: parseFloat_eval)

lemma parseFloat_date_2: "parseFloat ''2024-03-01'' = Fin 2024"
  by (simp add: parseFloat_eval)

lemma trim_Nil: "trim [] = []"
  by (simp add: trim_def trimEnd_def trimStart_def white_space_def)

lemma day_between_eq:
  "day_between = initial_builder\<lparr>selectedColumn := ''day'', selectedOperator := ''between''\<rparr>"
  by (simp add: day_between_def day_type_def select_operator_def select_column_def
      onOperatorChange_def onColumnChange_def flush_def initial_builder_def columnDataType_def
      shouldShowDropdown_def)

lemma city_in_eq:
  "city_in = initial_builder\<lparr>selectedColumn := ''city'', selectedOperator := ''in'',
     filterOptions := [''Oslo'', ''Rome'']\<rparr>"
  by (simp add: city_in_def age_city_def select_operator_def select_column_def
      onOperatorChange_def onColumnChange_def flush_def initial_builder_def columnDataType_def
      shouldShowDropdown_def loadFilterOptions_def)

section \<open>The operators offered for a column\<close>

text \<open>
  C1. Once a column is selected, its semantic type is computed from the declared type
  alone and is one of three: \<open>numeric\<close> for the declared type \<open>numeric\<close>, \<open>datetime\<close> for
  \<open>datetime\<close> and \<open>datetime_candidate\<close>, and \<open>categorical\<close> for everything else, a column
  without a declared type included. The operators offered are those of the fixed table for
  that type, in the table's order, and no operator is offered twice.
\<close>

theorem operators_follow_semantic_type:
  assumes "selectedColumn s \<noteq> []"
  shows "columnDataType types s =
           Some (if types (selectedColumn s) = Some ''numeric'' then ''numeric''
                 else if types (selectedColumn s) = Some ''datetime''
                      \<or> types (selectedColumn s) = Some ''datetime_candidate'' then ''datetime''
                 else ''categorical'')
       \<and> map op_value (availableOperators types s) =
           (if types (selectedColumn s) = Some ''numeric''
              then [''eq'', ''ne'', ''gt'', ''lt'', ''gte'', ''lte'', ''between'']
            else if types (selectedColumn s) = Some ''datetime''
                 \<or> types (selectedColumn s) = Some ''datetime_candidate''
              then [''eq'', ''gt'', ''lt'', ''gte'', ''lte'', ''between'']
            else [''eq'', ''ne'', ''contains'', ''in''])
       \<and> distinct (map op_value (availableOperators types s))"
  using assms by (simp add: availableOperators_def columnDataType_def OPERATORS_def)

theorem operators_follow_semantic_type_witness:
  "map op_value (availableOperators
      [''age'' \<mapsto> ''numeric'', ''city'' \<mapsto> ''text'', ''day'' \<mapsto> ''datetime_candidate'']
      (initial_builder\<lparr>selectedColumn := ''age''\<rparr>))
     = [''eq'', ''ne'', ''gt'', ''lt'', ''gte'', ''lte'', ''between'']
   \<and> map op_value (availableOperators
      [''age'' \<mapsto> ''numeric'', ''city'' \<mapsto> ''text'', ''day'' \<mapsto> ''datetime_candidate'']
      (initial_builder\<lparr>selectedColumn := ''city''\<rparr>))
     = [''eq'', ''ne'', ''contains'', ''in'']
   \<and> map op_value (availableOperators
      [''age'' \<mapsto> ''numeric'', ''city'' \<mapsto> ''text'', ''day'' \<mapsto> ''datetime_candidate'']
      (initial_builder\<lparr>selectedColumn := ''day''\<rparr>))
     = [''eq'', ''gt'', ''lt'', ''gte'', ''lte'', ''between'']"
  using operators_follow_semantic_type
      [of "initial_builder\<lparr>selectedColumn := ''age''\<rparr>"
          "[''age'' \<mapsto> ''numeric'', ''city'' \<mapsto> ''text'', ''day'' \<mapsto> ''datetime_candidate'']"]
    operators_follow_semantic_type
      [of "initial_builder\<lparr>selectedColumn := ''city''\<rparr>"
          "[''age'' \<mapsto> ''numeric'', ''city'' \<mapsto> ''text'', ''day'' \<mapsto> ''datetime_candidate'']"]
    operators_follow_semantic_type
      [of "initial_builder\<lparr>selectedColumn := ''day''\<rparr>"
          "[''age'' \<mapsto> ''numeric'', ''city'' \<mapsto> ''text'', ''day'' \<mapsto> ''datetime_candidate'']"]
  by (simp add: initial_builder_def)

section \<open>Validation of a range\<close>

text \<open>
  When both values are truthy and neither reads as NaN, the watcher sets the error if the
  second number is less than or equal to the first, and clears it if the second is greater.
\<close>

lemma watch_filterValues_truthy:
  assumes "selectedOperator s = ''between''"
    and "truthy (filterValue s)" and "truthy (filterValue2 s)"
    and "\<not> isNaN (parseFloat_value (filterValue s))"
    and "\<not> isNaN (parseFloat_value (filterValue2 s))"
  shows "(num_le (parseFloat_value (filterValue2 s)) (parseFloat_value (filterValue s)) \<longrightarrow>
            validationError (watch_filterValues s) = ''End value must be greater than start value'')
       \<and> (num_gt (parseFloat_value (filterValue2 s)) (parseFloat_value (filterValue s)) \<longrightarrow>
            validationError (watch_filterValues s) = [])"
  using assms
    num_gt_iff_not_le [of "parseFloat_value (filterValue2 s)" "parseFloat_value (filterValue s)"]
  by (simp add: watch_filterValues_def)

text \<open>
  The scenario of the specification: column \<open>age\<close>, operator \<open>between\<close>, the values \<open>10\<close>
  and \<open>5\<close>, and then \<open>50\<close> in place of \<open>5\<close>.
\<close>

lemma between_10_5_then_50:
  "validationError
     (input_filterValue2 age_city ''5'' (input_filterValue age_city ''10'' age_between))
     = ''End value must be greater than start value''
   \<and> \<not> canApply
       (input_filterValue2 age_city ''5'' (input_filterValue age_city ''10'' age_between))
   \<and> validationError
       (input_filterValue2 age_city ''50''
         (input_filterValue2 age_city ''5'' (input_filterValue age_city ''10'' age_between)))
     = []
   \<and> canApply
       (input_filterValue2 age_city ''50''
         (input_filterValue2 age_city ''5'' (input_filterValue age_city ''10'' age_between)))"
  by (simp add: age_between_eq number_input_eval canApply_def)

text \<open>
  The form after the start value \<open>5\<close> and the end value \<open>0\<close>, and the form after \<open>10\<close>
  and \<open>5\<close> followed by \<open>0\<close> in place of \<open>10\<close>: the inputs of a numeric column are number
  inputs, so the values are Numbers.
\<close>

lemma age_between_5_0:
  "input_filterValue2 age_city ''0'' (input_filterValue age_city ''5'' age_between)
     = initial_builder\<lparr>selectedColumn := ''age'', selectedOperator := ''between'',
         filterValue := Num (Fin 5), filterValue2 := Num (Fin 0)\<rparr>"
  by (simp add: age_between_eq number_input_eval)

lemma age_between_10_5_then_0:
  "input_filterValue age_city ''0''
     (input_filterValue2 age_city ''5'' (input_filterValue age_city ''10'' age_between))
     = initial_builder\<lparr>selectedColumn := ''age'', selectedOperator := ''between'',
         filterValue := Num (Fin 0), filterValue2 := Num (Fin 5),
         validationError := ''End value must be greater than start value''\<rparr>"
  by (simp add: age_between_eq number_input_eval)

text \<open>
  C2. The specification asks, for two non-empty values that both parse as numbers, for
  the error and a false \<open>canApply\<close> when the second is less than or equal to the first, and
  for no error and a true \<open>canApply\<close> when it is greater. The code does not do so when one
  of the numbers is zero: the watcher tests the two values for truth, the Number zero is
  falsy, and the comparison is skipped. With the start value \<open>5\<close> and the end value \<open>0\<close> no
  error is set and \<open>canApply\<close> is true. With an error standing from \<open>10\<close> and \<open>5\<close>, the start
  value \<open>0\<close> leaves it standing, and \<open>canApply\<close> is false for the range from \<open>0\<close> to \<open>5\<close>.
\<close>

theorem between_zero_skips_validation:
  "filterValue (input_filterValue2 age_city ''0'' (input_filterValue age_city ''5'' age_between))
     = Num (Fin 5)
   \<and> filterValue2 (input_filterValue2 age_city ''0'' (input_filterValue age_city ''5'' age_between))
     = Num (Fin 0)
   \<and> num_le (Fin 0) (Fin 5)
   \<and> validationError
       (input_filterValue2 age_city ''0'' (input_filterValue age_city ''5'' age_between)) = []
   \<and> canApply (input_filterValue2 age_city ''0'' (input_filterValue age_city ''5'' age_between))
   \<and> filterValue
       (input_filterValue age_city ''0''
         (input_filterValue2 age_city ''5'' (input_filterValue age_city ''10'' age_between)))
     = Num (Fin 0)
   \<and> filterValue2
       (input_filterValue age_city ''0''
         (input_filterValue2 age_city ''5'' (input_filterValue age_city ''10'' age_between)))
     = Num (Fin 5)
   \<and> num_gt (Fin 5) (Fin 0)
   \<and> validationError
       (input_filterValue age_city ''0''
         (input_filterValue2 age_city ''5'' (input_filterValue age_city ''10'' age_between)))
     = ''End value must be greater than start value''
   \<and> \<not> canApply
       (input_filterValue age_city ''0''
         (input_filterValue2 age_city ''5'' (input_filterValue age_city ''10'' age_between)))"
  unfolding age_between_5_0 age_between_10_5_then_0
  by (simp add: initial_builder_def canApply_def)

text \<open>
  \<open>applyFilter\<close> emits the range from \<open>5\<close> to \<open>0\<close>, and emits nothing for the range from \<open>0\<close>
  to \<open>5\<close>.
\<close>

theorem between_zero_skips_validation_witness:
  "fst (applyFilter
      (input_filterValue2 age_city ''0'' (input_filterValue age_city ''5'' age_between)))
     = Some \<lparr>filter_column = ''age'', filter_operator = ''between'',
             filter_value = Num (Fin 5), filter_value2 = Some (Num (Fin 0))\<rparr>
   \<and> fst (applyFilter
      (input_filterValue age_city ''0''
        (input_filterValue2 age_city ''5'' (input_filterValue age_city ''10'' age_between))))
     = None"
  using between_zero_skips_validation
  by (simp add: applyFilter_def) (simp add: age_between_5_0 initial_builder_def)

text \<open>
  A value for which \<open>parseFloat\<close> yields NaN is exempt from the comparison: the watcher
  clears the error.
\<close>

lemma watch_filterValues_not_numeric:
  assumes "selectedOperator s = ''between''"
    and "truthy (filterValue s)" and "truthy (filterValue2 s)"
    and "isNaN (parseFloat_value (filterValue s)) \<or> isNaN (parseFloat_value (filterValue2 s))"
  shows "validationError (watch_filterValues s) = []"
  using assms by (auto simp add: watch_filterValues_def)

text \<open>
  C3. The specification exempts a date string such as \<open>2024-01-05\<close> from the comparison.
  The code does not: \<open>parseFloat\<close> reads the leading year of a date, so two dates are compared
  by their years. For a datetime column, whose input is a date input, the range from
  \<open>2024-01-05\<close> to \<open>2024-03-01\<close> parses as 2024 and 2024: the watcher sets the error and
  \<open>canApply\<close> is false, although the end date is after the start date.
\<close>

theorem between_dates_compared_by_year:
  "valueInputType day_type day_between = ''date''
   \<and> parseFloat ''2024-01-05'' = Fin 2024 \<and> parseFloat ''2024-03-01'' = Fin 2024
   \<and> validationError
       (input_filterValue2 day_type ''2024-03-01''
         (input_filterValue day_type ''2024-01-05'' day_between))
     = ''End value must be greater than start value''
   \<and> \<not> canApply
       (input_filterValue2 day_type ''2024-03-01''
         (input_filterValue day_type ''2024-01-05'' day_between))"
  by (simp add: day_between_eq input_filterValue_def input_filterValue2_def vModelText_def
      flush_def initial_builder_def watch_filterValues_def canApply_def parseFloat_date_1
      parseFloat_date_2 valueInputType_def columnDataType_def day_type_def)

text \<open>With that range in the form, \<open>applyFilter\<close> emits no filter.\<close>

theorem between_dates_compared_by_year_witness:
  "fst (applyFilter
      (input_filterValue2 day_type ''2024-03-01''
        (input_filterValue day_type ''2024-01-05'' day_between))) = None"
  using between_dates_compared_by_year by (simp add: applyFilter_def)

section \<open>The gate of the Apply button\<close>

text \<open>
  C4. For the operator \<open>in\<close>, the specification asks that the parse of the text has
  produced at least one value. The code tests instead that the text or the value is not
  the empty string: with the text \<open>,\<close> the parse discards both segments, the value is the
  empty array, and \<open>canApply\<close> is true all the same.
\<close>

theorem canApply_in_without_values:
  "filterValueText (blur_filterValueText (input_filterValueText '','' city_in)) = '',''
   \<and> filter (\<lambda>v. v \<noteq> []) (map trim (split CHR '','' '','')) = []
   \<and> filterValue (blur_filterValueText (input_filterValueText '','' city_in)) = Arr []
   \<and> canApply (blur_filterValueText (input_filterValueText '','' city_in))"
  by (simp add: city_in_eq input_filterValueText_def blur_filterValueText_def parseInValues_def
      watch_filterValues_def initial_builder_def canApply_def trim_Nil)

text \<open>\<open>applyFilter\<close> then emits a filter with no value.\<close>

theorem canApply_in_without_values_witness:
  "fst (applyFilter (blur_filterValueText (input_filterValueText '','' city_in)))
     = Some \<lparr>filter_column = ''city'', filter_operator = ''in'', filter_value = Arr [],
             filter_value2 = None\<rparr>"
  using canApply_in_without_values
  by (simp add: applyFilter_def)
    (simp add: city_in_eq input_filterValueText_def blur_filterValueText_def parseInValues_def
      watch_filterValues_def initial_builder_def)

section \<open>Switching the chart type\<close>

text \<open>What the watchers leave of a form whose chart type has changed.\<close>

lemma flush_watchers_switch:
  assumes "chartType new \<noteq> chartType old"
  shows "flush_watchers old b new =
     new\<lparr>yColumns := [], secondaryYColumns := [],
       barMode := ''group'', sortOrder := [], orientation := ''v'',
       showTrendline := False, trendlineDegree := 1, sizeColumn := [],
       showDistributionFit := False, showStatistics := False,
       showPoints := False, horizontalOrientation := False,
       heatmapColorscale := ''RdBu'', showHeatmapAnnotations := True\<rparr>"
  using assms by (simp add: flush_watchers_def watch_chartType_def watch_yColumns_def)

lemma flush_watchers_chartType: "chartType (flush_watchers old b new) = chartType new"
  by (simp add: flush_watchers_def watch_chartType_def watch_yColumns_def)

lemma form_step_switch:
  assumes "chartType (form_step s e) \<noteq> chartType s"
  shows "\<exists>new. chartType new \<noteq> chartType s \<and> (\<exists>b. form_step s e = flush_watchers s b new)"
proof (cases e)
  case (SelectChartType t)
  with assms show ?thesis
    unfolding SelectChartType form_step.simps select_chartType_def flush_watchers_chartType
    by blast
next
  case (CheckY c checked)
  with assms show ?thesis
    by (auto simp add: check_yColumn_def flush_watchers_chartType
        split: option.splits if_splits)
next
  case (CheckY2 c checked)
  with assms show ?thesis
    by (auto simp add: check_secondaryYColumn_def split: option.splits if_splits)
next
  case (SelectColor c)
  with assms show ?thesis
    by (simp add: select_colorColumn_def)
next
  case (ApplySuggestion sg)
  with assms show ?thesis
    unfolding ApplySuggestion form_step.simps applySuggestion_def flush_watchers_chartType
    by blast
next
  case ResetForm
  with assms show ?thesis
    unfolding ResetForm form_step.simps resetForm_def flush_watchers_chartType
    by blast
qed

text \<open>
  C5. Whenever an event changes the chart type (the select, a suggestion, the reset
  button), every chart-specific option is at its default afterwards, whatever the form
  held before: no Y columns and no secondary Y columns, bar mode \<open>group\<close>, no sort order,
  orientation \<open>v\<close>, no trendline and degree 1, no size column, no distribution fit, no
  statistics, no points, not horizontal, colour scale \<open>RdBu\<close>, annotations shown.
\<close>

theorem chartType_switch_resets_options:
  assumes "chartType (form_step s e) \<noteq> chartType s"
  shows "yColumns (form_step s e) = [] \<and> secondaryYColumns (form_step s e) = []
       \<and> barMode (form_step s e) = ''group'' \<and> sortOrder (form_step s e) = []
       \<and> orientation (form_step s e) = ''v''
       \<and> showTrendline (form_step s e) = False \<and> trendlineDegree (form_step s e) = 1
       \<and> sizeColumn (form_step s e) = []
       \<and> showDistributionFit (form_step s e) = False \<and> showStatistics (form_step s e) = False
       \<and> showPoints (form_step s e) = False \<and> horizontalOrientation (form_step s e) = False
       \<and> heatmapColorscale (form_step s e) = ''RdBu''
       \<and> showHeatmapAnnotations (form_step s e) = True"
proof -
  from form_step_switch [OF assms] obtain new b
    where "chartType new \<noteq> chartType s" and "form_step s e = flush_watchers s b new"
    by blast
  then show ?thesis
    by (simp add: flush_watchers_switch)
qed

text \<open>From a bar chart with every option changed to a scatter plot: only the axes stay.\<close>

theorem chartType_switch_resets_options_witness:
  "select_chartType ''scatter'' bar_form
     = initial_form\<lparr>chartType := ''scatter'', xColumn := ''city'', yColumn := ''age''\<rparr>"
  using chartType_switch_resets_options [of bar_form "SelectChartType ''scatter''"]
  by (simp add: bar_form_def initial_form_def select_chartType_def flush_watchers_def
      watch_chartType_def watch_yColumns_def)

section \<open>The secondary axis\<close>

lemma checkbox_model_subset:
  assumes "checkbox_model c checked model = Some new" and "set model \<subseteq> A" and "c \<in> A"
  shows "set new \<subseteq> A"
  using assms set_remove1_subset [of c model]
  by (auto simp add: checkbox_model_def split: if_splits)

lemma flush_watchers_subset:
  assumes "yColumns_assigned \<or> set (secondaryYColumns new) \<subseteq> set (yColumns new)"
  shows "set (secondaryYColumns (flush_watchers old yColumns_assigned new))
     \<subseteq> set (yColumns (flush_watchers old yColumns_assigned new))"
  using assms by (auto simp add: flush_watchers_def watch_yColumns_def watch_chartType_def)

lemma form_step_subset:
  assumes "set (secondaryYColumns s) \<subseteq> set (yColumns s)"
  shows "set (secondaryYColumns (form_step s e)) \<subseteq> set (yColumns (form_step s e))"
proof (cases e)
  case (SelectChartType t)
  with assms show ?thesis
    by (simp add: select_chartType_def flush_watchers_subset)
next
  case (CheckY c checked)
  with assms show ?thesis
    by (simp add: check_yColumn_def flush_watchers_subset split: option.splits)
next
  case (CheckY2 c checked)
  have "set new \<subseteq> set (yColumns s)"
    if "checkbox_model c checked (secondaryYColumns s) = Some new" and "c \<in> set (yColumns s)"
    for new
    using that(1) assms that(2) by (rule checkbox_model_subset)
  with assms show ?thesis
    by (auto simp add: CheckY2 check_secondaryYColumn_def split: option.splits)
next
  case (SelectColor c)
  with assms show ?thesis
    by (simp add: select_colorColumn_def)
next
  case (ApplySuggestion sg)
  with assms show ?thesis
    by (simp add: applySuggestion_def flush_watchers_subset)
next
  case ResetForm
  then show ?thesis
    by (simp add: resetForm_def flush_watchers_subset)
qed

lemma line_abc_eq:
  "line_abc = initial_form\<lparr>xColumn := ''t'', yColumns := [''a'', ''b'', ''c''],
     secondaryYColumns := [''b'']\<rparr>"
  by (simp add: line_abc_def form_run_def check_yColumn_def check_secondaryYColumn_def
      showMultiYSelector_def checkbox_model_def flush_watchers_def watch_yColumns_def
      initial_form_def)

lemma line_abc_without_b:
  "check_yColumn ''b'' False line_abc
     = initial_form\<lparr>xColumn := ''t'', yColumns := [''a'', ''c''], secondaryYColumns := []\<rparr>"
  by (simp add: line_abc_eq check_yColumn_def showMultiYSelector_def checkbox_model_def
      flush_watchers_def watch_yColumns_def initial_form_def)

text \<open>
  C6. The secondary Y columns are among the Y columns after every event, from any form
  in which they were, hence after any sequence of events from the initial form. In the
  scenario (Y columns \<open>a\<close>, \<open>b\<close>, \<open>c\<close>, secondary \<open>b\<close>), unchecking \<open>b\<close> removes it from both
  lists, and the configuration built afterwards has \<open>y_columns\<close> equal to \<open>a\<close>, \<open>c\<close> and no
  key \<open>secondary_y_columns\<close>.
\<close>

theorem secondary_subset_of_yColumns:
  "(set (secondaryYColumns s) \<subseteq> set (yColumns s) \<longrightarrow>
      set (secondaryYColumns (form_run events s)) \<subseteq> set (yColumns (form_run events s)))
   \<and> set (secondaryYColumns (form_run events initial_form))
       \<subseteq> set (yColumns (form_run events initial_form))
   \<and> chartType line_abc = ''line'' \<and> yColumns line_abc = [''a'', ''b'', ''c'']
   \<and> secondaryYColumns line_abc = [''b'']
   \<and> yColumns (check_yColumn ''b'' False line_abc) = [''a'', ''c'']
   \<and> secondaryYColumns (check_yColumn ''b'' False line_abc) = []
   \<and> options (build_config (check_yColumn ''b'' False line_abc)) ''y_columns''
       = Some (OStrings [''a'', ''c''])
   \<and> options (build_config (check_yColumn ''b'' False line_abc)) ''secondary_y_columns'' = None"
proof -
  have inv: "set (secondaryYColumns (form_run events s)) \<subseteq> set (yColumns (form_run events s))"
    if "set (secondaryYColumns s) \<subseteq> set (yColumns s)" for s
    using that unfolding form_run_def
  proof (induction events arbitrary: s)
    case Nil
    then show ?case by simp
  next
    case (Cons e events)
    from Cons.prems have "set (secondaryYColumns (form_step s e)) \<subseteq> set (yColumns (form_step s e))"
      by (rule form_step_subset)
    then show ?case
      using Cons.IH by simp
  qed
  have init: "set (secondaryYColumns initial_form) \<subseteq> set (yColumns initial_form)"
    by (simp add: initial_form_def)
  have scenario: "options (build_config (check_yColumn ''b'' False line_abc)) ''y_columns''
       = Some (OStrings [''a'', ''c''])
     \<and> options (build_config (check_yColumn ''b'' False line_abc)) ''secondary_y_columns'' = None"
    unfolding line_abc_without_b
    by (simp add: build_config_def config_base_def config_color_def config_line_def
        config_bar_def config_scatter_def config_time_series_def config_histogram_def
        config_box_violin_def config_heatmap_def initial_form_def Let_def)
  show ?thesis
    using inv init scenario by (simp add: line_abc_without_b) (simp add: line_abc_eq initial_form_def)
qed

text \<open>
  Unchecking the other Y column leaves the secondary one in place, still among the Y
  columns; a change of chart type then empties both lists.
\<close>

theorem secondary_subset_of_yColumns_witness:
  "set (secondaryYColumns (form_run [CheckY ''a'' True, CheckY ''b'' True, CheckY2 ''b'' True,
      CheckY ''a'' False] initial_form)) \<subseteq> {''b''}
   \<and> form_run [CheckY ''a'' True, CheckY ''b'' True, CheckY2 ''b'' True,
      CheckY ''a'' False, SelectChartType ''bar''] initial_form
     = initial_form\<lparr>chartType := ''bar''\<rparr>"
  using secondary_subset_of_yColumns
    [of initial_form "[CheckY ''a'' True, CheckY ''b'' True, CheckY2 ''b'' True, CheckY ''a'' False]"]
  by (simp add: form_run_def check_yColumn_def check_secondaryYColumn_def select_chartType_def
      showMultiYSelector_def checkbox_model_def flush_watchers_def watch_yColumns_def
      watch_chartType_def initial_form_def)

section \<open>The gate of the Generate button\<close>

text \<open>
  C7. \<open>canGenerate\<close> is true for a heatmap; for a histogram exactly when an X column is
  chosen; for a line chart exactly when an X column is chosen and a Y column is chosen or
  the multi-select holds a column; for every other chart type exactly when an X and a Y
  column are chosen. The earlier copy of the component, which has no multi-select, agrees
  with this on a form whose multi-select is empty.
\<close>

theorem canGenerate_by_chart_type:
  "(chartType s = ''heatmap'' \<longrightarrow> canGenerate s)
   \<and> (chartType s = ''histogram'' \<longrightarrow> (canGenerate s \<longleftrightarrow> xColumn s \<noteq> []))
   \<and> (chartType s = ''line'' \<longrightarrow>
        (canGenerate s \<longleftrightarrow> xColumn s \<noteq> [] \<and> (yColumn s \<noteq> [] \<or> yColumns s \<noteq> [])))
   \<and> (chartType s \<noteq> ''heatmap'' \<and> chartType s \<noteq> ''histogram'' \<and> chartType s \<noteq> ''line'' \<longrightarrow>
        (canGenerate s \<longleftrightarrow> xColumn s \<noteq> [] \<and> yColumn s \<noteq> []))
   \<and> canGenerate_single (chartType s) (xColumn s) (yColumn s) = canGenerate (s\<lparr>yColumns := []\<rparr>)"
  by (simp add: canGenerate_def canGenerate_single_def)

theorem canGenerate_by_chart_type_witness:
  "canGenerate (initial_form\<lparr>chartType := ''heatmap''\<rparr>)
   \<and> \<not> canGenerate (initial_form\<lparr>chartType := ''histogram'', yColumn := ''age''\<rparr>)
   \<and> canGenerate (initial_form\<lparr>chartType := ''histogram'', xColumn := ''age''\<rparr>)
   \<and> canGenerate (initial_form\<lparr>xColumn := ''day'', yColumns := [''age'']\<rparr>)
   \<and> canGenerate (initial_form\<lparr>xColumn := ''day'', yColumn := ''age''\<rparr>)
   \<and> \<not> canGenerate (initial_form\<lparr>xColumn := ''day''\<rparr>)
   \<and> \<not> canGenerate (initial_form\<lparr>chartType := ''bar'', xColumn := ''city'', yColumns := [''age'']\<rparr>)
   \<and> canGenerate (initial_form\<lparr>chartType := ''bar'', xColumn := ''city'', yColumn := ''age''\<rparr>)
   \<and> canGenerate (initial_form\<lparr>chartType := ''scatter'', xColumn := ''age'', yColumn := ''income''\<rparr>)
   \<and> \<not> canGenerate (initial_form\<lparr>chartType := ''box'', xColumn := ''city''\<rparr>)
   \<and> \<not> canGenerate (initial_form\<lparr>chartType := ''violin'', yColumn := ''age''\<rparr>)
   \<and> canGenerate (initial_form\<lparr>chartType := ''time_series'', xColumn := ''day'', yColumn := ''age''\<rparr>)"
  using canGenerate_by_chart_type [of "initial_form\<lparr>chartType := ''heatmap''\<rparr>"]
    canGenerate_by_chart_type [of "initial_form\<lparr>chartType := ''histogram'', yColumn := ''age''\<rparr>"]
    canGenerate_by_chart_type [of "initial_form\<lparr>chartType := ''histogram'', xColumn := ''age''\<rparr>"]
    canGenerate_by_chart_type [of "initial_form\<lparr>xColumn := ''day'', yColumns := [''age'']\<rparr>"]
    canGenerate_by_chart_type [of "initial_form\<lparr>xColumn := ''day'', yColumn := ''age''\<rparr>"]
    canGenerate_by_chart_type [of "initial_form\<lparr>xColumn := ''day''\<rparr>"]
    canGenerate_by_chart_type
      [of "initial_form\<lparr>chartType := ''bar'', xColumn := ''city'', yColumns := [''age'']\<rparr>"]
    canGenerate_by_chart_type
      [of "initial_form\<lparr>chartType := ''bar'', xColumn := ''city'', yColumn := ''age''\<rparr>"]
    canGenerate_by_chart_type
      [of "initial_form\<lparr>chartType := ''scatter'', xColumn := ''age'', yColumn := ''income''\<rparr>"]
    canGenerate_by_chart_type [of "initial_form\<lparr>chartType := ''box'', xColumn := ''city''\<rparr>"]
    canGenerate_by_chart_type [of "initial_form\<lparr>chartType := ''violin'', yColumn := ''age''\<rparr>"]
    canGenerate_by_chart_type
      [of "initial_form\<lparr>chartType := ''time_series'', xColumn := ''day'', yColumn := ''age''\<rparr>"]
  by (simp add: initial_form_def)

section \<open>The colour column\<close>

text \<open>
  The blocks of \<open>generateChart\<close> after the colour block leave the chart type, the colour
  column and the key \<open>color_numeric\<close> as they find them.
\<close>

lemma replace_prefix:
  assumes "prefix pat s" and "s \<noteq> []"
  shows "replace pat rep s = rep @ drop (length pat) s"
  using assms by (cases s) simp_all

lemma config_line_color:
  "chart_type (config_line s c) = chart_type c"
  "color_column (config_line s c) = color_column c"
  "options (config_line s c) ''color_numeric'' = options c ''color_numeric''"
  by (simp_all add: config_line_def Let_def)

lemma config_bar_color:
  "chart_type (config_bar s c) = chart_type c"
  "color_column (config_bar s c) = color_column c"
  "options (config_bar s c) ''color_numeric'' = options c ''color_numeric''"
  by (simp_all add: config_bar_def Let_def)

lemma config_scatter_color:
  "chart_type (config_scatter s c) = chart_type c"
  "color_column (config_scatter s c) = color_column c"
  "options (config_scatter s c) ''color_numeric'' = options c ''color_numeric''"
  by (simp_all add: config_scatter_def Let_def)

lemma config_time_series_color:
  "chart_type (config_time_series s c) = chart_type c"
  "color_column (config_time_series s c) = color_column c"
  "options (config_time_series s c) ''color_numeric'' = options c ''color_numeric''"
  by (simp_all add: config_time_series_def)

lemma config_histogram_color:
  "chart_type (config_histogram s c) = chart_type c"
  "color_column (config_histogram s c) = color_column c"
  "options (config_histogram s c) ''color_numeric'' = options c ''color_numeric''"
  by (simp_all add: config_histogram_def Let_def)

lemma config_box_violin_color:
  "chart_type (config_box_violin s c) = chart_type c"
  "color_column (config_box_violin s c) = color_column c"
  "options (config_box_violin s c) ''color_numeric'' = options c ''color_numeric''"
  by (simp_all add: config_box_violin_def Let_def)

lemma config_heatmap_color:
  "chart_type (config_heatmap s c) = chart_type c"
  "color_column (config_heatmap s c) = color_column c"
  "options (config_heatmap s c) ''color_numeric'' = options c ''color_numeric''"
  by (simp_all add: config_heatmap_def Let_def)

lemma build_config_color:
  "chart_type (build_config s) = chartType s"
  "color_column (build_config s) = color_column (config_color s (config_base s))"
  "options (build_config s) ''color_numeric''
     = options (config_color s (config_base s)) ''color_numeric''"
  by (simp_all add: build_config_def config_line_color config_bar_color config_scatter_color
      config_time_series_color config_histogram_color config_box_violin_color
      config_heatmap_color config_color_def config_base_def)

lemma build_config_color_cases:
  "color_column (build_config s)
     = (if colorColumn s \<noteq> [] \<and> \<not> prefix ''numeric:'' (colorColumn s)
        then Some (colorColumn s) else None)"
  "options (build_config s) ''color_numeric''
     = (if prefix ''numeric:'' (colorColumn s)
        then Some (OString (drop 8 (colorColumn s))) else None)"
proof -
  show "color_column (build_config s)
     = (if colorColumn s \<noteq> [] \<and> \<not> prefix ''numeric:'' (colorColumn s)
        then Some (colorColumn s) else None)"
    by (simp add: build_config_color(2) config_color_def config_base_def)
  have "colorColumn s \<noteq> []" if "prefix ''numeric:'' (colorColumn s)"
    using that by auto
  then show "options (build_config s) ''color_numeric''
     = (if prefix ''numeric:'' (colorColumn s)
        then Some (OString (drop 8 (colorColumn s))) else None)"
    by (simp add: build_config_color(3) config_color_def config_base_def replace_prefix
        eval_nat_numeral)
qed

text \<open>
  C8. For a scatter chart, a colour selection without the prefix \<open>numeric:\<close> is emitted
  as \<open>color_column\<close>, and the key \<open>color_numeric\<close> is absent; a selection \<open>numeric:\<close> followed
  by a column yields \<open>color_column\<close> null and \<open>color_numeric\<close> equal to that column; the two
  are never set together.
\<close>

theorem scatter_color_routing:
  assumes "chartType s = ''scatter''"
  shows "(colorColumn s \<noteq> [] \<and> \<not> prefix ''numeric:'' (colorColumn s) \<longrightarrow>
            color_column (build_config s) = Some (colorColumn s)
            \<and> options (build_config s) ''color_numeric'' = None)
       \<and> (colorColumn s = ''numeric:'' @ col \<longrightarrow>
            color_column (build_config s) = None
            \<and> options (build_config s) ''color_numeric'' = Some (OString col))
       \<and> \<not> (color_column (build_config s) \<noteq> None
            \<and> options (build_config s) ''color_numeric'' \<noteq> None)"
  by (auto simp add: build_config_color_cases)

theorem scatter_color_routing_witness:
  "color_column (build_config (select_colorColumn ''city'' scatter_form)) = Some ''city''
   \<and> options (build_config (select_colorColumn ''city'' scatter_form)) ''color_numeric'' = None
   \<and> color_column (build_config (select_colorColumn ''numeric:age'' scatter_form)) = None
   \<and> options (build_config (select_colorColumn ''numeric:age'' scatter_form)) ''color_numeric''
     = Some (OString ''age'')"
  using scatter_color_routing [of "select_colorColumn ''city'' scatter_form" "''age''"]
    scatter_color_routing [of "select_colorColumn ''numeric:age'' scatter_form" "''age''"]
  by (simp add: select_colorColumn_def scatter_form_def initial_form_def)

lemma flush_watchers_colorColumn: "colorColumn (flush_watchers old b new) = colorColumn new"
  by (simp add: flush_watchers_def watch_chartType_def watch_yColumns_def)

text \<open>
  C10. Whatever the chart type, a stored colour selection that starts with \<open>numeric:\<close>
  gives a configuration with \<open>color_column\<close> null and \<open>color_numeric\<close> equal to the rest of
  the selection. Changing the chart type and applying a suggestion both leave the colour
  selection as it is, so the configurations built after them route it the same way.
\<close>

theorem numeric_color_carries_over:
  assumes "prefix ''numeric:'' (colorColumn s)"
  shows "color_column (build_config s) = None
       \<and> options (build_config s) ''color_numeric'' = Some (OString (drop 8 (colorColumn s)))
       \<and> colorColumn (select_chartType t s) = colorColumn s
       \<and> colorColumn (applySuggestion sg s) = colorColumn s
       \<and> color_column (build_config (select_chartType t s)) = None
       \<and> options (build_config (select_chartType t s)) ''color_numeric''
           = Some (OString (drop 8 (colorColumn s)))
       \<and> color_column (build_config (applySuggestion sg s)) = None
       \<and> options (build_config (applySuggestion sg s)) ''color_numeric''
           = Some (OString (drop 8 (colorColumn s)))"
proof -
  have "colorColumn (select_chartType t s) = colorColumn s"
    and "colorColumn (applySuggestion sg s) = colorColumn s"
    by (simp_all add: select_chartType_def applySuggestion_def flush_watchers_colorColumn)
  with assms show ?thesis
    by (simp add: build_config_color_cases)
qed

text \<open>A numeric colour chosen for a scatter plot, then a switch to a bar chart.\<close>

theorem numeric_color_carries_over_witness:
  "chart_type (build_config (select_chartType ''bar'' (select_colorColumn ''numeric:age'' scatter_form)))
     = ''bar''
   \<and> color_column
       (build_config (select_chartType ''bar'' (select_colorColumn ''numeric:age'' scatter_form)))
     = None
   \<and> options
       (build_config (select_chartType ''bar'' (select_colorColumn ''numeric:age'' scatter_form)))
       ''color_numeric''
     = Some (OString ''age'')"
  using numeric_color_carries_over [of "select_colorColumn ''numeric:age'' scatter_form" "''bar''"]
  by (simp add: build_config_color(1) select_colorColumn_def scatter_form_def initial_form_def
      select_chartType_def flush_watchers_def watch_chartType_def watch_yColumns_def)

section \<open>Failures of the collaborators\<close>

text \<open>
  C9. With an active source, a rejected query leaves the store as it was but for the
  error message, which is set, and the loading flag, which is off again. A rejected chart
  generation does the same: no chart is added, the active filters stay, and the form of
  the chart component is as before. A mutation of the filter set whose query is rejected
  keeps the mutated set and sets the error message.
\<close>

theorem collaborator_failure_keeps_state:
  assumes "activeSource s = Some src"
  shows "(api_q (source_id src) (activeFilters s) limit offset cols = Inl e \<longrightarrow>
            queryData api_q limit offset cols s
              = (Inl (Rejected e), s\<lparr>loading := False, error := Some (error_text e)\<rparr>))
       \<and> (api_c \<lparr>request_source_id = source_id src, request_config = build_config form,
                  request_filters = activeFilters s\<rparr> = Inl e' \<longrightarrow>
            ChartConfig_generateChart api_c form s
              = (form, Inl (Rejected e'), s\<lparr>loading := False, error := Some (error_text e')\<rparr>)
            \<and> charts (snd (generateChart api_c (build_config form) s)) = charts s
            \<and> activeFilters (snd (generateChart api_c (build_config form) s)) = activeFilters s)
       \<and> (api_q (source_id src) (activeFilters s @ [f]) 100 0 None = Inl e \<longrightarrow>
            addFilter api_q f s
              = s\<lparr>activeFilters := activeFilters s @ [f], loading := False,
                   error := Some (error_text e)\<rparr>)
       \<and> (api_q (source_id src) (take i (activeFilters s) @ drop (Suc i) (activeFilters s))
              100 0 None = Inl e \<longrightarrow>
            removeFilter api_q i s
              = s\<lparr>activeFilters := take i (activeFilters s) @ drop (Suc i) (activeFilters s),
                   loading := False, error := Some (error_text e)\<rparr>)
       \<and> (api_q (source_id src) [] 100 0 None = Inl e \<longrightarrow>
            clearFilters api_q s
              = s\<lparr>activeFilters := [], loading := False, error := Some (error_text e)\<rparr>)"
  using assms
  by (simp add: queryData_def generateChart_def ChartConfig_generateChart_def addFilter_def
      removeFilter_def clearFilters_def)

theorem collaborator_failure_keeps_state_witness:
  "queryData failing_query 100 0 None csv_store
     = (Inl (Rejected \<lparr>detail = Some ''Query failed'',
                        message = ''Request failed with status code 500''\<rparr>),
        csv_store\<lparr>error := Some ''Query failed''\<rparr>)
   \<and> snd (snd (ChartConfig_generateChart failing_chart
        (initial_form\<lparr>xColumn := ''city'', yColumn := ''age''\<rparr>) csv_store))
     = csv_store\<lparr>error := Some ''Network Error''\<rparr>
   \<and> fst (ChartConfig_generateChart failing_chart
        (initial_form\<lparr>xColumn := ''city'', yColumn := ''age''\<rparr>) csv_store)
     = initial_form\<lparr>xColumn := ''city'', yColumn := ''age''\<rparr>"
  using collaborator_failure_keeps_state
    [of csv_store "\<lparr>source_id = ''s1'', source_type = ''csv'', source_name = ''people.csv''\<rparr>"
        failing_query 100 0 None
        "\<lparr>detail = Some ''Query failed'', message = ''Request failed with status code 500''\<rparr>"
        failing_chart "initial_form\<lparr>xColumn := ''city'', yColumn := ''age''\<rparr>"
        "\<lparr>detail = None, message = ''Network Error''\<rparr>" _ 0]
  by (simp add: csv_store_def failing_query_def failing_chart_def error_text_def)

end
